theory Spec2Isabelle
  imports Main "HOL-Library.Multiset"
begin

section \<open>The news aggregator of src/server.js and src/backend/server.js\<close>

text \<open>
  The repository holds two servers. \<^verbatim>\<open>src/server.js\<close> has the extractor
  (\<^verbatim>\<open>fetchContent\<close>) that raises on a failed source and the aggregator
  (\<^verbatim>\<open>fetchAllData\<close>) that reports failed sources in \<^verbatim>\<open>errors\<close>.
  \<^verbatim>\<open>src/backend/server.js\<close> has an extractor that swallows every failure, the
  aggregator with the single-slot cache \<^verbatim>\<open>NEWS_CACHE\<close>, and the route
  \<^verbatim>\<open>GET /api/news\<close>.

  What the program gets from outside is a parameter of the model:
  \<^item> the libraries dayjs and URL (record \<open>lib\<close>);
  \<^item> the network, the clock and the order in which requests settle (record \<open>world\<close>);
  \<^item> a fetched document, as the answers of cheerio to the selectors asked of it.

  A JavaScript exception is the left summand of a sum type, carrying the message.
  Strings are byte lists: the Chinese message texts of the source are written as their
  UTF-8 bytes.
\<close>

subsection \<open>Data\<close>

text \<open>One entry of \<^verbatim>\<open>CONFIG.sources\<close>, with the fields \<^verbatim>\<open>fetchContent\<close> destructures.
  The optional \<^verbatim>\<open>HEADERS\<close> only change the request that is sent; the response is a
  parameter here, so they are left out.\<close>

record sourceConfig =
  url :: string
  title :: string
  dateSelector :: string
  itemSelector :: string
  titleSelector :: string
  hrefSelector :: string

text \<open>The object pushed to \<^verbatim>\<open>result\<close>. The field \<open>date\<close> is the calendar day as a
  count of days: \<^verbatim>\<open>date.format('YYYY-MM-DD')\<close> writes the day and \<^verbatim>\<open>dayjs(item.date)\<close>
  reads it back as the start of that day.\<close>

record item =
  source :: string
  item_title :: string
  item_url :: string
  date :: int

text \<open>The object pushed to \<^verbatim>\<open>errors\<close>; \<open>timestamp\<close> is the instant that
  \<^verbatim>\<open>new Date().toISOString()\<close> renders.\<close>

record sourceError =
  err_source :: string
  error_msg :: string
  timestamp :: nat

text \<open>The object \<^verbatim>\<open>data\<close> of \<^verbatim>\<open>fetchAllData\<close>. A field that is \<^verbatim>\<open>undefined\<close> or
  absent is \<open>None\<close>: \<^verbatim>\<open>res.json\<close> leaves it out.\<close>

record aggregate =
  updateTime :: string
  total :: nat
  allItems :: "item list"
  errors :: "sourceError list option"
  partialSuccess :: "bool option"

datatype js_error = Error string | TypeError string

fun message :: "js_error \<Rightarrow> string" where
  "message (Error m) = m"
| "message (TypeError m) = m"

text \<open>A cheerio selection is the list of matched nodes; of a node only its text and
  its attributes are read.\<close>

record node =
  node_text :: string
  node_attrs :: "(string \<times> string) list"

type_synonym selection = "node list"

text \<open>An element matched by \<^verbatim>\<open>itemSelector\<close> answers \<^verbatim>\<open>$(element).find(selector)\<close>:
  the selection, or the exception cheerio throws (a selector it cannot parse).
  A document answers \<^verbatim>\<open>cheerio.load(response.data)\<close> followed by \<^verbatim>\<open>$(itemSelector)\<close>
  in the same way.\<close>

type_synonym element = "string \<Rightarrow> string + selection"
type_synonym document = "string \<Rightarrow> string + element list"

text \<open>What \<^verbatim>\<open>axios.get\<close> meets: no usable response (timeout, refused connection,
  too many redirects, ...) with the message of the error, or the final response with
  its status, status text and body.\<close>

datatype http_outcome =
  NetworkFailure string
| HttpResponse nat string document

text \<open>The libraries. \<open>dayjs_parse\<close> is
  \<^verbatim>\<open>dayjs(dateText, ['YYYY/MM/DD', 'YYYY-MM-DD', 'YYYY.MM.DD', ...], true)\<close>, \<open>None\<close> when
  \<^verbatim>\<open>isValid()\<close> is false; the theorems about the aggregator and the cache hold for
  every such function, and \<open>parseDate\<close> below is the one the program runs. \<open>url_href\<close> is \<^verbatim>\<open>new URL(href, base).href\<close>, which throws a
  TypeError on an invalid URL; its first argument is \<^verbatim>\<open>undefined\<close> when the attribute
  is missing.\<close>

record lib =
  dayjs_parse :: "string \<Rightarrow> int option"
  url_href :: "string option \<Rightarrow> string \<Rightarrow> string + string"

text \<open>The surroundings of one run. \<open>net i\<close> is what the request for the \<open>i\<close>-th
  source meets; \<open>settled i\<close> is the instant at which that request settles, read by
  \<^verbatim>\<open>new Date()\<close> in the handler of its rejection; \<open>date_now\<close> is \<^verbatim>\<open>Date.now()\<close> at the
  start of the run; \<open>today\<close> is the calendar day of \<^verbatim>\<open>dayjs()\<close> and \<open>now_text\<close> is
  \<^verbatim>\<open>dayjs().format('YYYY-MM-DD HH:mm:ss')\<close>.\<close>

record world =
  net :: "nat \<Rightarrow> http_outcome"
  settled :: "nat \<Rightarrow> nat"
  date_now :: int
  today :: int
  now_text :: string

text \<open>\<^verbatim>\<open>CONFIG\<close>. An entry of \<^verbatim>\<open>sources\<close> that is \<^verbatim>\<open>null\<close> in config.json is
  \<open>None\<close>: \<^verbatim>\<open>loadConfig\<close> only checks \<^verbatim>\<open>Array.isArray(config.sources)\<close>.\<close>

record config =
  days :: int
  intervalMinutes :: int
  sources :: "sourceConfig option list"

subsection \<open>Strings\<close>

text \<open>Text is held as UTF-8 bytes. The white space of JavaScript (the code points of
  \<^verbatim>\<open>WhiteSpace\<close> and \<^verbatim>\<open>LineTerminator\<close>: U+0009 to U+000D, U+0020, U+00A0, U+1680,
  U+2000 to U+200A, U+2028, U+2029, U+202F, U+205F, U+3000 and U+FEFF), each as its
  bytes.\<close>

definition white_space :: "string list" where
  "white_space =
     [[CHR 0x09], [CHR 0x0A], [CHR 0x0B], [CHR 0x0C], [CHR 0x0D], [CHR 0x20],
      [CHR 0xC2, CHR 0xA0], [CHR 0xE1, CHR 0x9A, CHR 0x80],
      [CHR 0xE2, CHR 0x80, CHR 0x80], [CHR 0xE2, CHR 0x80, CHR 0x81],
      [CHR 0xE2, CHR 0x80, CHR 0x82], [CHR 0xE2, CHR 0x80, CHR 0x83],
      [CHR 0xE2, CHR 0x80, CHR 0x84], [CHR 0xE2, CHR 0x80, CHR 0x85],
      [CHR 0xE2, CHR 0x80, CHR 0x86], [CHR 0xE2, CHR 0x80, CHR 0x87],
      [CHR 0xE2, CHR 0x80, CHR 0x88], [CHR 0xE2, CHR 0x80, CHR 0x89],
      [CHR 0xE2, CHR 0x80, CHR 0x8A], [CHR 0xE2, CHR 0x80, CHR 0xA8],
      [CHR 0xE2, CHR 0x80, CHR 0xA9], [CHR 0xE2, CHR 0x80, CHR 0xAF],
      [CHR 0xE2, CHR 0x81, CHR 0x9F], [CHR 0xE3, CHR 0x80, CHR 0x80],
      [CHR 0xEF, CHR 0xBB, CHR 0xBF]]"

text \<open>The length of the token that starts \<open>s\<close>, or 0 when none of \<open>toks\<close> does; and
  the rest of \<open>s\<close> after all the tokens it starts with.\<close>

definition token_length :: "string list \<Rightarrow> string \<Rightarrow> nat" where
  "token_length toks s =
     (case find (\<lambda>t. take (length t) s = t) toks of None \<Rightarrow> 0 | Some t \<Rightarrow> length t)"

function drop_tokens :: "string list \<Rightarrow> string \<Rightarrow> string" where
  "drop_tokens toks s =
     (if s = [] \<or> token_length toks s = 0 then s
      else drop_tokens toks (drop (token_length toks s) s))"
  by pat_completeness auto
termination
  by (relation "measure (\<lambda>(toks, s). length s)") auto

declare drop_tokens.simps [simp del]

text \<open>\<^verbatim>\<open>String.prototype.trim\<close>: the white space at both ends is removed. At the end
  the bytes are matched backwards; no encoding of a white space character ends another
  character.\<close>

definition trimStart :: "string \<Rightarrow> string" where
  "trimStart s = drop_tokens white_space s"

definition trimEnd :: "string \<Rightarrow> string" where
  "trimEnd s = rev (drop_tokens (map rev white_space) (rev s))"

definition trim :: "string \<Rightarrow> string" where
  "trim s = trimEnd (trimStart s)"

text \<open>The value of a digit in bases up to 36, and of a run of digits.\<close>

definition digit_value :: "char \<Rightarrow> nat option" where
  "digit_value c =
     (let k = (of_char c :: nat) in
      if 48 \<le> k \<and> k \<le> 57 then Some (k - 48)
      else if 97 \<le> k \<and> k \<le> 122 then Some (k - 87)
      else if 65 \<le> k \<and> k \<le> 90 then Some (k - 55)
      else None)"

definition is_digit :: "nat \<Rightarrow> char \<Rightarrow> bool" where
  "is_digit radix c = (case digit_value c of None \<Rightarrow> False | Some v \<Rightarrow> v < radix)"

definition digits_value :: "nat \<Rightarrow> string \<Rightarrow> int" where
  "digits_value radix ds = foldl (\<lambda>acc c. acc * int radix + int (the (digit_value c))) 0 ds"

definition digit_char :: "nat \<Rightarrow> char" where
  "digit_char d = ''0123456789'' ! d"

text \<open>A number in a template literal: its decimal digits.\<close>

fun string_of_nat :: "nat \<Rightarrow> string" where
  "string_of_nat n =
     (if n < 10 then [digit_char n] else string_of_nat (n div 10) @ [digit_char (n mod 10)])"

declare string_of_nat.simps [simp del]

subsection \<open>cheerio selections\<close>

text \<open>\<^verbatim>\<open>.text()\<close> joins the text of every matched node; \<^verbatim>\<open>.attr(name)\<close> reads the
  attribute of the first one and is \<^verbatim>\<open>undefined\<close> without a node or an attribute.\<close>

definition sel_text :: "selection \<Rightarrow> string" where
  "sel_text sel = concat (map node_text sel)"

definition sel_attr :: "selection \<Rightarrow> string \<Rightarrow> string option" where
  "sel_attr sel name = (case sel of [] \<Rightarrow> None | n # _ \<Rightarrow> map_of (node_attrs n) name)"

subsection \<open>dayjs as the program loads it\<close>

text \<open>
  Both servers call \<^verbatim>\<open>dayjs(dateText, [formats], true)\<close> and neither calls
  \<^verbatim>\<open>dayjs.extend(customParseFormat)\<close>. Without that plugin dayjs takes the second
  argument for a configuration object and never reads the formats or the strict flag:
  \<^verbatim>\<open>parseDate\<close> matches the string against the constant \<^verbatim>\<open>REGEX_PARSE\<close>,
  \<^verbatim>\<open>/^(\d{4})[-/]?(\d\d?)[-/]?(\d{0,2})[Tt\s]*(\d{1,2})?:?(\d{1,2})?:?(\d{1,2})?[.:]?(\d+)?$/\<close>,
  builds \<^verbatim>\<open>new Date(d[1], d[2] - 1 || 0, d[3] || 1, d[4] || 0, d[5] || 0, d[6] || 0, ms)\<close>
  from the groups, and hands every string that does not match, or that ends in
  \<^verbatim>\<open>Z\<close>, to \<^verbatim>\<open>new Date(date)\<close>.
\<close>

text \<open>Up to \<open>n\<close> digits at the start of a string, and the rest; one optional
  character out of \<open>chars\<close>.\<close>

fun take_digits :: "nat \<Rightarrow> string \<Rightarrow> string \<times> string" where
  "take_digits 0 s = ([], s)"
| "take_digits (Suc n) [] = ([], [])"
| "take_digits (Suc n) (c # cs) =
     (if is_digit 10 c then (c # fst (take_digits n cs), snd (take_digits n cs))
      else ([], c # cs))"

definition skip_one :: "string \<Rightarrow> string \<Rightarrow> string" where
  "skip_one chars s = (case s of [] \<Rightarrow> [] | c # cs \<Rightarrow> if c \<in> set chars then cs else s)"

text \<open>The match of \<^verbatim>\<open>REGEX_PARSE\<close>: its seven groups, an unmatched group as the
  empty string. Every group takes the digits it can: what a group leaves is only ever
  offered to the groups after it, which are optional and have the same separators
  before them or none, so the expression matches exactly when this reading reaches
  the end of the string.\<close>

definition REGEX_PARSE ::
  "string \<Rightarrow> (string \<times> string \<times> string \<times> string \<times> string \<times> string \<times> string) option" where
  "REGEX_PARSE s =
     (let (d1, s1) = take_digits 4 s;
          (d2, s2) = take_digits 2 (skip_one ''-/'' s1);
          (d3, s3) = take_digits 2 (skip_one ''-/'' s2);
          (d4, s4) = take_digits 2 (drop_tokens ([''T'', ''t''] @ white_space) s3);
          (d5, s5) = take_digits 2 (skip_one '':'' s4);
          (d6, s6) = take_digits 2 (skip_one '':'' s5);
          s7 = skip_one ''.:'' s6;
          d7 = takeWhile (is_digit 10) s7
      in if length d1 = 4 \<and> d2 \<noteq> [] \<and> dropWhile (is_digit 10) s7 = []
         then Some (d1, d2, d3, d4, d5, d6, d7) else None)"

text \<open>The number of the day \<open>y\<close>-\<open>m\<close>-\<open>d\<close> of the Gregorian calendar, counted from
  1970-01-01.\<close>

definition days_from_civil :: "int \<Rightarrow> int \<Rightarrow> int \<Rightarrow> int" where
  "days_from_civil y m d =
     (let y1 = (if m \<le> 2 then y - 1 else y);
          era = y1 div 400;
          yoe = y1 - era * 400;
          doy = (153 * (if m > 2 then m - 3 else m + 9) + 2) div 5 + d - 1;
          doe = yoe * 365 + yoe div 4 - yoe div 100 + doy
      in era * 146097 + doe - 719468)"

text \<open>The calendar day of \<^verbatim>\<open>new Date(y, m, d, h, mi, s, ms)\<close> in local time: a year
  from 0 to 99 is taken as 1900 + \<open>y\<close>; months, days and times outside their ranges
  carry over. (A change of the clock for daylight saving inside the carried hours is
  not modelled.)\<close>

definition local_day :: "int \<Rightarrow> int \<Rightarrow> int \<Rightarrow> int \<Rightarrow> int \<Rightarrow> int \<Rightarrow> int \<Rightarrow> int" where
  "local_day y m d h mi s ms =
     (let year = (if 0 \<le> y \<and> y \<le> 99 then 1900 + y else y)
      in days_from_civil (year + m div 12) (m mod 12 + 1) 1 + (d - 1)
         + (h * 3600000 + mi * 60000 + s * 1000 + ms) div 86400000)"

text \<open>\<^verbatim>\<open>parseDate\<close> of dayjs on a string, as the calendar day of the date, \<open>None\<close>
  when \<^verbatim>\<open>isValid()\<close> is false. \<^verbatim>\<open>new Date(string)\<close>, the date parser of the engine, is
  the parameter \<open>new_Date\<close>. A date built from the groups is always valid.\<close>

definition parseDate :: "(string \<Rightarrow> int option) \<Rightarrow> string \<Rightarrow> int option" where
  "parseDate new_Date str =
     (if str \<noteq> [] \<and> (last str = CHR ''Z'' \<or> last str = CHR ''z'') then new_Date str
      else
        (case REGEX_PARSE str of
           None \<Rightarrow> new_Date str
         | Some (d1, d2, d3, d4, d5, d6, d7) \<Rightarrow>
             Some (local_day (digits_value 10 d1) (digits_value 10 d2 - 1)
               (if d3 = [] then 1 else digits_value 10 d3)
               (digits_value 10 d4) (digits_value 10 d5) (digits_value 10 d6)
               (digits_value 10 (take 3 d7)))))"

subsection \<open>The extractor: the callback of \<^verbatim>\<open>each\<close>\<close>

text \<open>Why the callback pushed nothing: the three early returns, and the
  \<^verbatim>\<open>catch (err)\<close> around the whole body.\<close>

datatype skip = NoDateElement | InvalidDate string | NoTitleOrHref | Thrown string

text \<open>The body of the callback (src/server.js lines 101 to 135, the same code as
  src/backend/server.js lines 91 to 125): the item to push, or the reason for none.\<close>

definition process_element :: "lib \<Rightarrow> sourceConfig \<Rightarrow> element \<Rightarrow> skip + item" where
  "process_element L sc el =
     (case el (dateSelector sc) of
        Inl err \<Rightarrow> Inl (Thrown err)
      | Inr dateElement \<Rightarrow>
          if length dateElement = 0 then Inl NoDateElement
          else
            let dateText = trim (sel_text dateElement) in
            (case dayjs_parse L dateText of
               None \<Rightarrow> Inl (InvalidDate dateText)
             | Some d \<Rightarrow>
                 (case el (titleSelector sc) of
                    Inl err \<Rightarrow> Inl (Thrown err)
                  | Inr titleElement \<Rightarrow>
                      (case el (hrefSelector sc) of
                         Inl err \<Rightarrow> Inl (Thrown err)
                       | Inr hrefElement \<Rightarrow>
                           if length titleElement = 0 \<or> length hrefElement = 0
                           then Inl NoTitleOrHref
                           else
                             (case url_href L (sel_attr hrefElement ''href'') (url sc) of
                                Inl err \<Rightarrow> Inl (Thrown err)
                              | Inr href \<Rightarrow>
                                  let text =
                                    (case sel_attr titleElement ''title'' of
                                       None \<Rightarrow> trim (sel_text titleElement)
                                     | Some t \<Rightarrow>
                                         if t = [] then trim (sel_text titleElement) else t)
                                  in Inr \<lparr>source = title sc, item_title = text,
                                          item_url = href, date = d\<rparr>)))))"

text \<open>\<^verbatim>\<open>$(itemSelector).each(...)\<close>: the callback runs on every element in document
  order, and \<open>result\<close> is the array it pushes to.\<close>

fun each :: "lib \<Rightarrow> sourceConfig \<Rightarrow> element list \<Rightarrow> item list \<Rightarrow> item list" where
  "each L sc [] result = result"
| "each L sc (el # els) result =
     (case process_element L sc el of
        Inl _ \<Rightarrow> each L sc els result
      | Inr it \<Rightarrow> each L sc els (result @ [it]))"

subsection \<open>The extractor of src/server.js\<close>

text \<open>The start of the message of the error \<^verbatim>\<open>fetchContent\<close> throws: the four
  characters that say "fetch failed", a space and an opening bracket.\<close>

definition fetch_failed :: string where
  "fetch_failed = [CHR 0xE6, CHR 0x8A, CHR 0x93, CHR 0xE5, CHR 0x8F, CHR 0x96, CHR 0xE5,
     CHR 0xA4, CHR 0xB1, CHR 0xE8, CHR 0xB4, CHR 0xA5, CHR 0x20, CHR 0x28]"

text \<open>\<^verbatim>\<open>fetchContent\<close> of src/server.js, for a source that is an object. The request
  is sent with \<^verbatim>\<open>validateStatus: status => status < 400\<close>, so axios rejects a response
  with any other status, with an error that carries \<^verbatim>\<open>error.response\<close>. The
  \<^verbatim>\<open>throw new Error(`HTTP status: ...`)\<close> of the else branch is inside the
  \<^verbatim>\<open>try\<close>, so the \<^verbatim>\<open>catch\<close> wraps its message as it wraps every other.
  The result is the message of the error thrown, or the array returned.\<close>

definition fetchContent :: "lib \<Rightarrow> http_outcome \<Rightarrow> sourceConfig \<Rightarrow> string + item list" where
  "fetchContent L outcome sc =
     (case outcome of
        NetworkFailure msg \<Rightarrow> Inl (fetch_failed @ msg @ '')'')
      | HttpResponse status statusText body \<Rightarrow>
          if status < 400 then
            (if status = 200 then
               (case body (itemSelector sc) of
                  Inl msg \<Rightarrow> Inl (fetch_failed @ msg @ '')'')
                | Inr els \<Rightarrow> Inr (each L sc els []))
             else Inl (fetch_failed @ ''HTTP status: '' @ string_of_nat status @ '')''))
          else Inl (fetch_failed @ ''HTTP status: '' @ string_of_nat status @ '' - ''
                      @ statusText @ '')''))"

subsection \<open>Sorting and the day window\<close>

text \<open>\<^verbatim>\<open>dayjs(x).valueOf()\<close> for the start of a calendar day, in milliseconds (the
  offset of the local time zone is left out: it shifts every value alike).\<close>

definition valueOf :: "int \<Rightarrow> int" where
  "valueOf d = d * 86400000"

text \<open>The comparator \<^verbatim>\<open>(a, b) => dayjs(b.date).valueOf() - dayjs(a.date).valueOf()\<close>.\<close>

definition by_date_desc :: "item \<Rightarrow> item \<Rightarrow> int" where
  "by_date_desc a b = valueOf (date b) - valueOf (date a)"

text \<open>\<^verbatim>\<open>Array.prototype.sort\<close> with a comparator is a stable sort: \<open>a\<close> stays before
  \<open>b\<close> unless the comparator is positive (stable since ECMAScript 2019). Insertion
  from the right is one such sort; on a comparator that is a consistent order, as
  \<open>by_date_desc\<close> is, every stable sort gives the same array.\<close>

fun insert_cmp :: "('a \<Rightarrow> 'a \<Rightarrow> int) \<Rightarrow> 'a \<Rightarrow> 'a list \<Rightarrow> 'a list" where
  "insert_cmp cmp x [] = [x]"
| "insert_cmp cmp x (y # ys) =
     (if cmp x y \<le> 0 then x # y # ys else y # insert_cmp cmp x ys)"

fun js_sort :: "('a \<Rightarrow> 'a \<Rightarrow> int) \<Rightarrow> 'a list \<Rightarrow> 'a list" where
  "js_sort cmp [] = []"
| "js_sort cmp (x # xs) = insert_cmp cmp x (js_sort cmp xs)"

text \<open>\<^verbatim>\<open>dayjs().subtract(days, 'day').startOf('day')\<close>: the start of the day that lies
  \<open>days\<close> calendar days before today.\<close>

definition cutoffDate :: "world \<Rightarrow> int \<Rightarrow> int" where
  "cutoffDate w n = valueOf (today w - n)"

text \<open>\<^verbatim>\<open>item => dayjs(item.date).isAfter(cutoffDate)\<close>.\<close>

definition isAfter_cutoff :: "world \<Rightarrow> int \<Rightarrow> item \<Rightarrow> bool" where
  "isAfter_cutoff w n it = (valueOf (date it) > cutoffDate w n)"

subsection \<open>The aggregator of src/server.js\<close>

text \<open>\<^verbatim>\<open>Promise.all\<close>: the values in the order of the promises, or a rejection. When
  several promises reject, the first to settle wins; here the first in the array is
  taken, and every rejection of one run has the same error (see \<open>mapper\<close>).\<close>

fun promise_all :: "('e + 'a) list \<Rightarrow> 'e + 'a list" where
  "promise_all [] = Inr []"
| "promise_all (Inl e # ps) = Inl e"
| "promise_all (Inr x # ps) =
     (case promise_all ps of Inl e \<Rightarrow> Inl e | Inr xs \<Rightarrow> Inr (x # xs))"

text \<open>V8's message for reading \<^verbatim>\<open>source.title\<close> of \<^verbatim>\<open>null\<close>.\<close>

definition null_title :: js_error where
  "null_title = TypeError ''Cannot read properties of null (reading 'title')''"

text \<open>The function mapped over \<^verbatim>\<open>CONFIG.sources\<close> (lines 163 to 176), on the \<open>i\<close>-th
  source: what it pushes to \<^verbatim>\<open>errors\<close> and what it returns. For a \<^verbatim>\<open>null\<close> entry
  \<^verbatim>\<open>fetchContent\<close> throws while destructuring, the \<^verbatim>\<open>catch\<close> reads
  \<^verbatim>\<open>source.title\<close> and throws in turn, and the promise rejects.\<close>

definition mapper ::
  "lib \<Rightarrow> world \<Rightarrow> nat \<times> sourceConfig option \<Rightarrow> js_error + (sourceError list \<times> item list)"
where
  "mapper L w p =
     (case p of
        (i, None) \<Rightarrow> Inl null_title
      | (i, Some sc) \<Rightarrow>
          (case fetchContent L (net w i) sc of
             Inr items \<Rightarrow> Inr ([], items)
           | Inl msg \<Rightarrow>
               Inr ([\<lparr>err_source = title sc, error_msg = msg, timestamp = settled w i\<rparr>],
                    [])))"

text \<open>\<^verbatim>\<open>fetchAllData(days)\<close> of src/server.js: the error rethrown by the outer
  \<^verbatim>\<open>catch\<close>, or \<open>data\<close>. The handlers push to \<^verbatim>\<open>errors\<close> as the requests settle, so
  the array is in the order of the timestamps.\<close>

definition fetchAllData :: "lib \<Rightarrow> world \<Rightarrow> config \<Rightarrow> int \<Rightarrow> js_error + aggregate" where
  "fetchAllData L w CONFIG n =
     (case promise_all (map (mapper L w) (enumerate 0 (sources CONFIG))) of
        Inl e \<Rightarrow> Inl e
      | Inr settledAll \<Rightarrow>
          let errs = sort_key timestamp (concat (map fst settledAll));
              results = map snd settledAll;
              sortedItems = js_sort by_date_desc (concat results);
              filteredItems = filter (isAfter_cutoff w n) sortedItems
          in Inr \<lparr>updateTime = now_text w,
                  total = length filteredItems,
                  allItems = filteredItems,
                  errors = (if length errs > 0 then Some errs else None),
                  partialSuccess = Some (length errs > 0 \<and> length filteredItems > 0)\<rparr>)"

subsection \<open>The extractor and the cache of src/backend/server.js\<close>

text \<open>\<^verbatim>\<open>fetchContent\<close> of src/backend/server.js, for a source that is an object. The
  request has no \<^verbatim>\<open>validateStatus\<close>, so axios rejects every status outside 200 to 299.
  Both the else branch and the \<^verbatim>\<open>catch\<close> return \<^verbatim>\<open>[]\<close>.\<close>

definition backend_fetchContent :: "lib \<Rightarrow> http_outcome \<Rightarrow> sourceConfig \<Rightarrow> item list" where
  "backend_fetchContent L outcome sc =
     (case outcome of
        NetworkFailure msg \<Rightarrow> []
      | HttpResponse status statusText body \<Rightarrow>
          if 200 \<le> status \<and> status < 300 then
            (if status = 200 then
               (case body (itemSelector sc) of
                  Inl msg \<Rightarrow> []
                | Inr els \<Rightarrow> each L sc els [])
             else [])
          else [])"

text \<open>V8's message for \<^verbatim>\<open>const { url, ... } = sourceConfig\<close> on \<^verbatim>\<open>null\<close>.\<close>

definition null_source :: js_error where
  "null_source = TypeError ''Cannot destructure property 'url' of 'sourceConfig' as it is null.''"

text \<open>\<^verbatim>\<open>source => fetchContent(source)\<close>: the destructuring is outside the \<^verbatim>\<open>try\<close> of
  \<^verbatim>\<open>fetchContent\<close>, so a \<^verbatim>\<open>null\<close> entry rejects.\<close>

definition backend_mapper ::
  "lib \<Rightarrow> world \<Rightarrow> nat \<times> sourceConfig option \<Rightarrow> js_error + item list" where
  "backend_mapper L w p =
     (case p of
        (i, None) \<Rightarrow> Inl null_source
      | (i, Some sc) \<Rightarrow> Inr (backend_fetchContent L (net w i) sc))"

text \<open>\<^verbatim>\<open>NEWS_CACHE\<close>; \<open>None\<close> is \<^verbatim>\<open>null\<close>. The field \<^verbatim>\<open>categories\<close> is never read or
  written.\<close>

record news_cache =
  data :: "aggregate option"
  lastUpdate :: "int option"

text \<open>\<^verbatim>\<open>fetchAllData(forceRefresh, days)\<close> of src/backend/server.js: what it returns
  or throws, and \<^verbatim>\<open>NEWS_CACHE\<close> afterwards. The object returned is always the one the
  cache holds.\<close>

definition backend_fetchAllData ::
  "lib \<Rightarrow> world \<Rightarrow> config \<Rightarrow> news_cache \<Rightarrow> bool \<Rightarrow> int \<Rightarrow> (js_error + aggregate) \<times> news_cache"
where
  "backend_fetchAllData L w CONFIG NEWS_CACHE forceRefresh n =
     (let now = date_now w;
          cacheAge = now - (case lastUpdate NEWS_CACHE of None \<Rightarrow> 0 | Some t \<Rightarrow> t);
          cacheTimeout = intervalMinutes CONFIG * 60 * 1000
      in
        if \<not> forceRefresh \<and> data NEWS_CACHE \<noteq> None \<and> cacheAge < cacheTimeout
        then (Inr (the (data NEWS_CACHE)), NEWS_CACHE)
        else
          (case promise_all (map (backend_mapper L w) (enumerate 0 (sources CONFIG))) of
             Inr results \<Rightarrow>
               let sortedItems = js_sort by_date_desc (concat results);
                   filteredItems = filter (isAfter_cutoff w n) sortedItems;
                   d = \<lparr>updateTime = now_text w,
                        total = length filteredItems,
                        allItems = filteredItems,
                        errors = None,
                        partialSuccess = None\<rparr>
               in (Inr d, NEWS_CACHE\<lparr>data := Some d, lastUpdate := Some now\<rparr>)
           | Inl e \<Rightarrow>
               (case data NEWS_CACHE of
                  Some cached \<Rightarrow> (Inr cached, NEWS_CACHE)
                | None \<Rightarrow> (Inl e, NEWS_CACHE))))"

subsection \<open>The route \<^verbatim>\<open>GET /api/news\<close> of src/backend/server.js\<close>

text \<open>\<^verbatim>\<open>parseInt(string)\<close> without a radix: white space is skipped, then a sign,
  then \<^verbatim>\<open>0x\<close> or \<^verbatim>\<open>0X\<close> selects base 16; the longest run of digits is read and the
  rest of the string is ignored. \<open>None\<close> is \<^verbatim>\<open>NaN\<close>: no digit was read. The argument
  \<^verbatim>\<open>undefined\<close> is read as the string "undefined". The value is exact here;
  JavaScript rounds it to a double, which the check of the route cannot tell apart
  (a value that is rounded is far above 90 or far below 1).\<close>

definition parseInt :: "string option \<Rightarrow> int option" where
  "parseInt arg =
     (let s = trimStart (case arg of None \<Rightarrow> ''undefined'' | Some str \<Rightarrow> str);
          negative = (take 1 s = ''-'');
          s1 = (if take 1 s = ''-'' \<or> take 1 s = ''+'' then drop 1 s else s);
          hex = (take 2 s1 = ''0x'' \<or> take 2 s1 = ''0X'');
          radix = (if hex then 16 else 10);
          s2 = (if hex then drop 2 s1 else s1);
          z = takeWhile (is_digit radix) s2
      in if z = [] then None
         else Some ((if negative then - 1 else 1) * digits_value radix z))"

text \<open>\<^verbatim>\<open>req.query\<close>, with each parameter absent or given once as a string.\<close>

record query =
  q_category :: "string option"
  q_days :: "string option"

text \<open>The body of a response: \<open>data\<close>, or the object \<^verbatim>\<open>{error, message}\<close>.\<close>

datatype body = Data aggregate | Failure string string

datatype response = Response nat body

text \<open>The texts of the error bodies: "parameter error", "the days must be a number
  between 1 and 90" and "server error".\<close>

definition param_error :: string where
  "param_error = [CHR 0xE5, CHR 0x8F, CHR 0x82, CHR 0xE6, CHR 0x95, CHR 0xB0, CHR 0xE9,
     CHR 0x94, CHR 0x99, CHR 0xE8, CHR 0xAF, CHR 0xAF]"

definition days_1_to_90 :: string where
  "days_1_to_90 = [CHR 0xE5, CHR 0xA4, CHR 0xA9, CHR 0xE6, CHR 0x95, CHR 0xB0, CHR 0xE5,
     CHR 0xBF, CHR 0x85, CHR 0xE9, CHR 0xA1, CHR 0xBB, CHR 0xE6, CHR 0x98, CHR 0xAF, CHR 0x31,
     CHR 0xE5, CHR 0x88, CHR 0xB0, CHR 0x39, CHR 0x30, CHR 0xE4, CHR 0xB9, CHR 0x8B, CHR 0xE9,
     CHR 0x97, CHR 0xB4, CHR 0xE7, CHR 0x9A, CHR 0x84, CHR 0xE6, CHR 0x95, CHR 0xB0, CHR 0xE5,
     CHR 0xAD, CHR 0x97]"

definition server_error :: string where
  "server_error = [CHR 0xE6, CHR 0x9C, CHR 0x8D, CHR 0xE5, CHR 0x8A, CHR 0xA1, CHR 0xE5,
     CHR 0x99, CHR 0xA8, CHR 0xE9, CHR 0x94, CHR 0x99, CHR 0xE8, CHR 0xAF, CHR 0xAF]"

text \<open>A string is truthy when it is there and not empty.\<close>

definition truthy :: "string option \<Rightarrow> bool" where
  "truthy v = (case v of None \<Rightarrow> False | Some str \<Rightarrow> str \<noteq> [])"

text \<open>\<^verbatim>\<open>parseInt(days) || CONFIG.days\<close>: \<^verbatim>\<open>NaN\<close> and \<^verbatim>\<open>0\<close> are falsy. The value is a
  JavaScript number, \<open>None\<close> for \<^verbatim>\<open>NaN\<close>.\<close>

definition daysNum :: "config \<Rightarrow> query \<Rightarrow> int option" where
  "daysNum CONFIG q =
     (case parseInt (q_days q) of
        None \<Rightarrow> Some (days CONFIG)
      | Some k \<Rightarrow> if k = 0 then Some (days CONFIG) else Some k)"

text \<open>The check before the 400 response:
  \<^verbatim>\<open>days && (isNaN(daysNum) || daysNum < 1 || daysNum > 90)\<close>.\<close>

definition rejects_days :: "config \<Rightarrow> query \<Rightarrow> bool" where
  "rejects_days CONFIG q =
     (truthy (q_days q) \<and>
      (case daysNum CONFIG q of None \<Rightarrow> True | Some k \<Rightarrow> k < 1 \<or> k > 90))"

text \<open>The handler of \<^verbatim>\<open>GET /api/news\<close>: the response and \<^verbatim>\<open>NEWS_CACHE\<close> afterwards.
  Without a category filter \<open>data\<close> is the object in the cache, and
  \<^verbatim>\<open>data.total = data.allItems.length\<close> writes to it; with a filter it is a copy.
  \<^verbatim>\<open>saveData\<close> writes the response to a file and catches its own errors; it is left
  out.\<close>

definition api_news ::
  "lib \<Rightarrow> world \<Rightarrow> config \<Rightarrow> news_cache \<Rightarrow> query \<Rightarrow> response \<times> news_cache" where
  "api_news L w CONFIG NEWS_CACHE q =
     (if rejects_days CONFIG q
      then (Response 400 (Failure param_error days_1_to_90), NEWS_CACHE)
      else
        (case backend_fetchAllData L w CONFIG NEWS_CACHE False (the (daysNum CONFIG q)) of
           (Inl e, cache) \<Rightarrow> (Response 500 (Failure server_error (message e)), cache)
         | (Inr d, cache) \<Rightarrow>
             if truthy (q_category q) \<and> q_category q \<noteq> Some ''all''
             then
               let d1 = d\<lparr>allItems := filter (\<lambda>it. Some (source it) = q_category q) (allItems d)\<rparr>;
                   d2 = d1\<lparr>total := length (allItems d1)\<rparr>
               in (Response 200 (Data d2), cache)
             else
               let d2 = d\<lparr>total := length (allItems d)\<rparr>
               in (Response 200 (Data d2), cache\<lparr>data := Some d2\<rparr>)))"

subsection \<open>The words of the specification\<close>

text \<open>The strict date formats of the specification: \<^verbatim>\<open>YYYY/MM/DD\<close>, \<^verbatim>\<open>YYYY-MM-DD\<close>,
  \<^verbatim>\<open>YYYY.MM.DD\<close> and the long form with the characters for year, month and day after
  the numbers. A text has the shape of a format when it is four digits, two digits
  and two digits with exactly the separators of the format. (Strict parsing also
  refuses a day that is not in the calendar; the shape alone is what is used below.)\<close>

definition all_digits :: "string \<Rightarrow> bool" where
  "all_digits s = list_all (is_digit 10) s"

definition has_shape :: "string \<Rightarrow> string \<Rightarrow> string \<Rightarrow> string \<Rightarrow> bool" where
  "has_shape sep1 sep2 tail s =
     (let yyyy = take 4 s; r1 = drop 4 s;
          mm = take 2 (drop (length sep1) r1); r2 = drop (length sep1 + 2) r1;
          dd = take 2 (drop (length sep2) r2); r3 = drop (length sep2 + 2) r2
      in length yyyy = 4 \<and> all_digits yyyy \<and> take (length sep1) r1 = sep1
         \<and> length mm = 2 \<and> all_digits mm \<and> take (length sep2) r2 = sep2
         \<and> length dd = 2 \<and> all_digits dd \<and> r3 = tail)"

definition strict_format :: "string \<Rightarrow> bool" where
  "strict_format s =
     (has_shape ''/'' ''/'' [] s \<or> has_shape ''-'' ''-'' [] s \<or> has_shape ''.'' ''.'' [] s
      \<or> has_shape [CHR 0xE5, CHR 0xB9, CHR 0xB4] [CHR 0xE6, CHR 0x9C, CHR 0x88]
           [CHR 0xE6, CHR 0x97, CHR 0xA5] s)"

text \<open>What the \<open>i\<close>-th source gives to a run: the items its extraction returned
  (none when it failed), and the error entry of its failure (none when it
  succeeded).\<close>

definition contribution :: "lib \<Rightarrow> world \<Rightarrow> nat \<times> sourceConfig option \<Rightarrow> item list" where
  "contribution L w p =
     (case p of
        (i, None) \<Rightarrow> []
      | (i, Some sc) \<Rightarrow>
          (case fetchContent L (net w i) sc of Inr items \<Rightarrow> items | Inl msg \<Rightarrow> []))"

definition failure :: "lib \<Rightarrow> world \<Rightarrow> nat \<times> sourceConfig option \<Rightarrow> sourceError list" where
  "failure L w p =
     (case p of
        (i, None) \<Rightarrow> []
      | (i, Some sc) \<Rightarrow>
          (case fetchContent L (net w i) sc of
             Inr items \<Rightarrow> []
           | Inl msg \<Rightarrow>
               [\<lparr>err_source = title sc, error_msg = msg, timestamp = settled w i\<rparr>]))"

text \<open>The concatenation of the sources' items in the order of \<^verbatim>\<open>CONFIG.sources\<close>, and
  the error entries in the order of their timestamps.\<close>

definition contributions :: "lib \<Rightarrow> world \<Rightarrow> config \<Rightarrow> item list" where
  "contributions L w CONFIG = concat (map (contribution L w) (enumerate 0 (sources CONFIG)))"

definition failures :: "lib \<Rightarrow> world \<Rightarrow> config \<Rightarrow> sourceError list" where
  "failures L w CONFIG =
     sort_key timestamp (concat (map (failure L w) (enumerate 0 (sources CONFIG))))"

text \<open>A list of items is newest first when the dates never increase along it.\<close>

abbreviation newest_first :: "item list \<Rightarrow> bool" where
  "newest_first \<equiv> sorted_wrt (\<lambda>a b. date b \<le> date a)"

text \<open>A source failed in a run when its \<^verbatim>\<open>fetchContent\<close> threw.\<close>

definition source_failed :: "lib \<Rightarrow> world \<Rightarrow> config \<Rightarrow> nat \<Rightarrow> bool" where
  "source_failed L w CONFIG i =
     (case sources CONFIG ! i of
        None \<Rightarrow> False
      | Some sc \<Rightarrow> isl (fetchContent L (net w i) sc))"

subsection \<open>A run on three sources\<close>

text \<open>Sources A, B and C on 2024-05-04 (day 19847). A has an item of 2024-05-03 and
  one of 2024-05-01; B has an item of 2024/05/03, an element without a date and an
  item of 2024.05.02; C times out.\<close>

definition ex_parse :: "string \<Rightarrow> int option" where
  "ex_parse s =
     (if s = ''2024-05-03'' \<or> s = ''2024/05/03'' then Some 19846
      else if s = ''2024.05.02'' then Some 19845
      else if s = ''2024-05-01'' then Some 19844
      else None)"

definition ex_href :: "string option \<Rightarrow> string \<Rightarrow> string + string" where
  "ex_href h base =
     (case h of
        None \<Rightarrow> Inr (base @ ''undefined'')
      | Some p \<Rightarrow> if p = ''http://'' then Inl ''Invalid URL'' else Inr (base @ p))"

definition ex_lib :: lib where
  "ex_lib = \<lparr>dayjs_parse = ex_parse, url_href = ex_href\<rparr>"

definition ex_source :: "string \<Rightarrow> sourceConfig" where
  "ex_source t = \<lparr>url = ''http://'' @ t @ ''.example/'', title = t, dateSelector = ''.date'',
     itemSelector = ''li'', titleSelector = ''a'', hrefSelector = ''a''\<rparr>"

definition ex_element :: "string \<Rightarrow> string \<Rightarrow> string \<Rightarrow> element" where
  "ex_element d t h sel =
     (if sel = ''.date'' then Inr [\<lparr>node_text = d, node_attrs = []\<rparr>]
      else if sel = ''a'' then Inr [\<lparr>node_text = t, node_attrs = [(''href'', h)]\<rparr>]
      else Inr [])"

definition ex_undated :: element where
  "ex_undated sel =
     (if sel = ''a'' then Inr [\<lparr>node_text = ''b0'', node_attrs = [(''href'', ''b0.html'')]\<rparr>]
      else Inr [])"

definition ex_document :: "element list \<Rightarrow> document" where
  "ex_document els sel = (if sel = ''li'' then Inr els else Inr [])"

definition ex_elements_A :: "element list" where
  "ex_elements_A =
     [ex_element ''2024-05-03'' '' a1 '' ''a1.html'', ex_element ''2024-05-01'' ''a2'' ''a2.html'']"

definition ex_elements_B :: "element list" where
  "ex_elements_B =
     [ex_element '' 2024/05/03'' ''b1'' ''b1.html'', ex_undated,
      ex_element ''2024.05.02'' ''b2'' ''b2.html'']"

definition ex_net :: "nat \<Rightarrow> http_outcome" where
  "ex_net i =
     (if i = 0 then HttpResponse 200 ''OK'' (ex_document ex_elements_A)
      else if i = 1 then HttpResponse 200 ''OK'' (ex_document ex_elements_B)
      else NetworkFailure ''timeout of 10000ms exceeded'')"

definition ex_settled :: "nat \<Rightarrow> nat" where
  "ex_settled i = (if i = 2 then 1714816810000 else 1714816800500)"

definition ex_world :: world where
  "ex_world = \<lparr>net = ex_net, settled = ex_settled, date_now = 1714816800000,
     today = 19847, now_text = ''2024-05-04 10:00:10''\<rparr>"

definition ex_config :: config where
  "ex_config = \<lparr>days = 3, intervalMinutes = 30,
     sources = [Some (ex_source ''A''), Some (ex_source ''B''), Some (ex_source ''C'')]\<rparr>"

definition ex_item :: "string \<Rightarrow> string \<Rightarrow> int \<Rightarrow> item" where
  "ex_item t name d = \<lparr>source = t, item_title = name,
     item_url = ''http://'' @ t @ ''.example/'' @ name @ ''.html'', date = d\<rparr>"

definition ex_error_C :: sourceError where
  "ex_error_C = \<lparr>err_source = ''C'',
     error_msg = fetch_failed @ ''timeout of 10000ms exceeded)'',
     timestamp = 1714816810000\<rparr>"

definition ex_result :: aggregate where
  "ex_result = \<lparr>updateTime = ''2024-05-04 10:00:10'', total = 3,
     allItems = [ex_item ''A'' ''a1'' 19846, ex_item ''B'' ''b1'' 19846, ex_item ''B'' ''b2'' 19845],
     errors = Some [ex_error_C], partialSuccess = Some True\<rparr>"

text \<open>The configuration \<^verbatim>\<open>loadConfig\<close> falls back to: no sources.\<close>

definition default_config :: config where
  "default_config = \<lparr>days = 3, intervalMinutes = 30, sources = []\<rparr>"

text \<open>A configuration whose second entry is \<^verbatim>\<open>null\<close>.\<close>

definition ex_config_null :: config where
  "ex_config_null = \<lparr>days = 3, intervalMinutes = 30,
     sources = [Some (ex_source ''A''), None]\<rparr>"

definition ex_result_default :: aggregate where
  "ex_result_default = \<lparr>updateTime = ''2024-05-04 10:00:10'', total = 0, allItems = [],
     errors = None, partialSuccess = Some False\<rparr>"

text \<open>The libraries with the dayjs of the program, for every date parser of the
  engine, and an element of A whose date is written with one digit for the month and
  one for the day.\<close>

definition core_lib :: "(string \<Rightarrow> int option) \<Rightarrow> lib" where
  "core_lib new_Date = \<lparr>dayjs_parse = parseDate new_Date, url_href = ex_href\<rparr>"

definition ex_one_digit :: element where
  "ex_one_digit = ex_element ''2024-5-3'' ''a3'' ''a3.html''"

text \<open>A response with status 203 that carries the document of A.\<close>

definition ex_response_203 :: http_outcome where
  "ex_response_203 = HttpResponse 203 ''Non-Authoritative Information'' (ex_document ex_elements_A)"

text \<open>\<^verbatim>\<open>NEWS_CACHE\<close> as the script creates it, and as a run with \<^verbatim>\<open>days = 7\<close> left it 800
  seconds before \<open>ex_world\<close>.\<close>

definition initial_cache :: news_cache where
  "initial_cache = \<lparr>data = None, lastUpdate = None\<rparr>"

definition ex_cached :: aggregate where
  "ex_cached = \<lparr>updateTime = ''2024-05-04 09:46:40'', total = 2,
     allItems = [ex_item ''A'' ''a1'' 19846, ex_item ''A'' ''a2'' 19844],
     errors = None, partialSuccess = None\<rparr>"

definition ex_cache :: news_cache where
  "ex_cache = \<lparr>data = Some ex_cached, lastUpdate = Some 1714816000000\<rparr>"

text \<open>The queries \<^verbatim>\<open>?days=abc\<close> and \<^verbatim>\<open>?days=0\<close>.\<close>

definition ex_query_abc :: query where
  "ex_query_abc = \<lparr>q_category = None, q_days = Some ''abc''\<rparr>"

definition ex_query_zero :: query where
  "ex_query_zero = \<lparr>q_category = None, q_days = Some ''0''\<rparr>"

section \<open>Lemmas\<close>

subsection \<open>The \<^verbatim>\<open>each\<close> loop\<close>

lemma each_result: "each L sc els result = result @ each L sc els []"
proof (induction els arbitrary: result)
  case Nil
  show ?case by simp
next
  case (Cons el els)
  show ?case
  proof (cases "process_element L sc el")
    case (Inl why)
    then show ?thesis using Cons.IH [of result] by simp
  next
    case (Inr it)
    then show ?thesis using Cons.IH [of "result @ [it]"] Cons.IH [of "[it]"] by simp
  qed
qed

text \<open>The loop pushes the item of every element whose callback builds one, in
  document order, and nothing for the others.\<close>

lemma each_items:
  "each L sc els [] =
     concat (map (\<lambda>el. case process_element L sc el of Inl why \<Rightarrow> [] | Inr it \<Rightarrow> [it]) els)"
proof (induction els)
  case Nil
  show ?case by simp
next
  case (Cons el els)
  show ?case
  proof (cases "process_element L sc el")
    case (Inl why)
    with Cons.IH show ?thesis by simp
  next
    case (Inr it)
    with Cons.IH each_result [of L sc els "[it]"] show ?thesis by simp
  qed
qed

subsection \<open>Sorting, \<^verbatim>\<open>Promise.all\<close> and the aggregator\<close>

lemma valueOf_less [simp]: "valueOf a < valueOf b \<longleftrightarrow> a < b"
  by (simp add: valueOf_def)

lemma by_date_desc_le: "by_date_desc a b \<le> 0 \<longleftrightarrow> date b \<le> date a"
  by (simp add: by_date_desc_def valueOf_def)

lemma isAfter_cutoff_iff: "isAfter_cutoff w n it \<longleftrightarrow> today w - n < date it"
  by (simp add: isAfter_cutoff_def cutoffDate_def)

lemma isAfter_cutoff_fun: "isAfter_cutoff w n = (\<lambda>it. today w - n < date it)"
  by (rule ext) (simp add: isAfter_cutoff_iff)

lemma mset_insert_cmp: "mset (insert_cmp cmp x ys) = add_mset x (mset ys)"
  by (induction ys) simp_all

lemma mset_js_sort: "mset (js_sort cmp xs) = mset xs"
  by (induction xs) (simp_all add: mset_insert_cmp)

lemma set_insert_cmp: "set (insert_cmp cmp x ys) = insert x (set ys)"
  using mset_insert_cmp [of cmp x ys, THEN arg_cong, of set_mset] by simp

lemma newest_first_insert:
  "newest_first ys \<Longrightarrow> newest_first (insert_cmp by_date_desc x ys)"
proof (induction ys)
  case Nil
  show ?case by simp
next
  case (Cons y ys)
  show ?case
  proof (cases "date y \<le> date x")
    case True
    then have "\<forall>z \<in> set (y # ys). date z \<le> date x"
      using Cons.prems by auto
    with True Cons.prems show ?thesis by (simp add: by_date_desc_le)
  next
    case False
    with Cons show ?thesis
      by (auto simp: by_date_desc_le set_insert_cmp)
  qed
qed

lemma newest_first_js_sort: "newest_first (js_sort by_date_desc xs)"
  by (induction xs) (simp_all add: newest_first_insert)

lemma same_day_insert:
  "filter (\<lambda>it. date it = d) (insert_cmp by_date_desc x ys) =
     filter (\<lambda>it. date it = d) (x # ys)"
  by (induction ys) (auto simp: by_date_desc_le)

lemma same_day_js_sort:
  "filter (\<lambda>it. date it = d) (js_sort by_date_desc xs) = filter (\<lambda>it. date it = d) xs"
proof (induction xs)
  case Nil
  show ?case by simp
next
  case (Cons x xs)
  have "filter (\<lambda>it. date it = d) (js_sort by_date_desc (x # xs)) =
          filter (\<lambda>it. date it = d) (x # js_sort by_date_desc xs)"
    by (simp only: js_sort.simps same_day_insert)
  then show ?case using Cons.IH by simp
qed

text \<open>The array is the one every stable sort by descending date gives.\<close>

lemma js_sort_sort_key: "js_sort by_date_desc xs = sort_key (\<lambda>it. - date it) xs"
proof (rule properties_for_sort_key [symmetric])
  show "mset (js_sort by_date_desc xs) = mset xs"
    by (rule mset_js_sort)
  show "sorted (map (\<lambda>it. - date it) (js_sort by_date_desc xs))"
    using newest_first_js_sort [of xs] by (simp add: sorted_map)
  fix k
  have "filter (\<lambda>x. date k = date x) (js_sort by_date_desc xs) = filter (\<lambda>x. date k = date x) xs"
    using same_day_js_sort [of "date k" xs] by (simp add: eq_commute)
  then show "filter (\<lambda>x. - date k = - date x) (js_sort by_date_desc xs) =
      filter (\<lambda>x. - date k = - date x) xs"
    by simp
qed

lemma promise_all_values: "promise_all ps = Inr xs \<Longrightarrow> ps = map Inr xs"
proof (induction ps arbitrary: xs)
  case Nil
  then show ?case by simp
next
  case (Cons p ps)
  then show ?case by (cases p) (auto split: sum.splits)
qed

lemma promise_all_fulfilled: "promise_all (map Inr xs) = Inr xs"
  by (induction xs) simp_all

lemma promise_all_rejected: "isl (promise_all ps) \<longleftrightarrow> (\<exists>p \<in> set ps. isl p)"
proof (induction ps)
  case Nil
  show ?case by simp
next
  case (Cons p ps)
  then show ?case by (cases p) (auto split: sum.splits)
qed

lemma mapper_value:
  "mapper L w p = Inr v \<Longrightarrow> v = (failure L w p, contribution L w p) \<and> snd p \<noteq> None"
  by (cases p) (auto simp: mapper_def failure_def contribution_def split: option.splits sum.splits)

lemma mapper_rejects: "isl (mapper L w p) \<longleftrightarrow> snd p = None"
  by (cases p) (auto simp: mapper_def split: option.splits sum.splits)

lemma mapper_values:
  "map (mapper L w) ps = map Inr vs \<Longrightarrow>
     map fst vs = map (failure L w) ps \<and> map snd vs = map (contribution L w) ps"
proof (induction ps arbitrary: vs)
  case Nil
  then show ?case by simp
next
  case (Cons p ps)
  then obtain v vs' where vs: "vs = v # vs'" by (cases vs) auto
  with Cons.prems have "mapper L w p = Inr v" and "map (mapper L w) ps = map Inr vs'"
    by simp_all
  with Cons.IH [of vs'] mapper_value [of L w p v] vs show ?case by simp
qed

lemma null_entry_enumerate:
  "(\<exists>p \<in> set (enumerate k xs). snd p = None) \<longleftrightarrow> None \<in> set xs"
  for xs :: "sourceConfig option list"
proof -
  have "(\<exists>p \<in> set ps. snd p = None) \<longleftrightarrow> None \<in> set (map snd ps)"
    for ps :: "(nat \<times> sourceConfig option) list"
    by (induction ps) auto
  from this [of "enumerate k xs"] show ?thesis by simp
qed

lemma fetchAllData_returns_iff:
  "(\<exists>r. fetchAllData L w CONFIG n = Inr r) \<longleftrightarrow> None \<notin> set (sources CONFIG)"
proof -
  have "isl (promise_all (map (mapper L w) (enumerate 0 (sources CONFIG))))
          \<longleftrightarrow> None \<in> set (sources CONFIG)"
    by (simp add: promise_all_rejected mapper_rejects null_entry_enumerate)
  then show ?thesis
    by (cases "promise_all (map (mapper L w) (enumerate 0 (sources CONFIG)))")
       (auto simp: fetchAllData_def Let_def)
qed

lemma fetchAllData_value:
  assumes "fetchAllData L w CONFIG n = Inr r"
  shows "allItems r =
           filter (isAfter_cutoff w n) (js_sort by_date_desc (contributions L w CONFIG))"
    and "total r = length (allItems r)"
    and "errors r = (if failures L w CONFIG = [] then None else Some (failures L w CONFIG))"
    and "partialSuccess r = Some (failures L w CONFIG \<noteq> [] \<and> total r > 0)"
    and "updateTime r = now_text w"
proof -
  obtain vs where all: "promise_all (map (mapper L w) (enumerate 0 (sources CONFIG))) = Inr vs"
    using assms
    by (cases "promise_all (map (mapper L w) (enumerate 0 (sources CONFIG)))")
       (simp_all add: fetchAllData_def)
  from promise_all_values [OF all] mapper_values [of L w "enumerate 0 (sources CONFIG)" vs]
  have "map fst vs = map (failure L w) (enumerate 0 (sources CONFIG))"
    and "map snd vs = map (contribution L w) (enumerate 0 (sources CONFIG))"
    by simp_all
  with assms all
  have r: "r = \<lparr>updateTime = now_text w,
      total = length (filter (isAfter_cutoff w n) (js_sort by_date_desc (contributions L w CONFIG))),
      allItems = filter (isAfter_cutoff w n) (js_sort by_date_desc (contributions L w CONFIG)),
      errors = (if failures L w CONFIG = [] then None else Some (failures L w CONFIG)),
      partialSuccess = Some (failures L w CONFIG \<noteq> [] \<and>
        filter (isAfter_cutoff w n) (js_sort by_date_desc (contributions L w CONFIG)) \<noteq> [])\<rparr>"
    by (auto simp: fetchAllData_def Let_def failures_def contributions_def)
  show items: "allItems r =
      filter (isAfter_cutoff w n) (js_sort by_date_desc (contributions L w CONFIG))"
    by (subst r) simp
  have "total r =
      length (filter (isAfter_cutoff w n) (js_sort by_date_desc (contributions L w CONFIG)))"
    by (subst r) simp
  then show count: "total r = length (allItems r)"
    by (simp add: items)
  show "errors r = (if failures L w CONFIG = [] then None else Some (failures L w CONFIG))"
    by (subst r) simp
  have "partialSuccess r = Some (failures L w CONFIG \<noteq> [] \<and> allItems r \<noteq> [])"
    unfolding items by (subst r) simp
  then show "partialSuccess r = Some (failures L w CONFIG \<noteq> [] \<and> total r > 0)"
    by (simp add: count)
  show "updateTime r = now_text w"
    by (subst r) simp
qed

lemma contribution_within:
  "p \<in> set ps \<Longrightarrow> mset (filter P (contribution L w p)) \<subseteq>#
     (\<Sum>q\<leftarrow>ps. mset (filter P (contribution L w q)))"
  by (induction ps) (auto intro: subset_mset.add_increasing)

lemma mset_filter_concat:
  "mset (filter P (concat (map f ps))) = (\<Sum>q\<leftarrow>ps. mset (filter P (f q)))"
  by (induction ps) simp_all

lemma failures_set:
  "set (failures L w CONFIG) = (\<Union>p \<in> set (enumerate 0 (sources CONFIG)). set (failure L w p))"
  by (simp add: failures_def)

lemma ball_enumerate:
  "(\<forall>p \<in> set (enumerate 0 xs). P p) \<longleftrightarrow> (\<forall>i < length xs. P (i, xs ! i))"
proof
  assume all: "\<forall>p \<in> set (enumerate 0 xs). P p"
  show "\<forall>i < length xs. P (i, xs ! i)"
  proof (intro allI impI)
    fix i
    assume "i < length xs"
    then have "(i, xs ! i) \<in> set (enumerate 0 xs)"
      by (simp add: in_set_enumerate_eq)
    with all show "P (i, xs ! i)" by blast
  qed
next
  assume all: "\<forall>i < length xs. P (i, xs ! i)"
  show "\<forall>p \<in> set (enumerate 0 xs). P p"
  proof
    fix p
    assume "p \<in> set (enumerate 0 xs)"
    then have "fst p < length xs" and "p = (fst p, xs ! fst p)"
      by (simp_all add: in_set_enumerate_eq prod_eq_iff)
    with all show "P p" by metis
  qed
qed

lemma failure_empty_iff:
  "failure L w (i, s) = [] \<longleftrightarrow> (case s of None \<Rightarrow> True | Some sc \<Rightarrow> \<not> isl (fetchContent L (net w i) sc))"
  by (simp add: failure_def split: option.splits sum.splits)

lemma failures_empty_iff:
  "failures L w CONFIG = [] \<longleftrightarrow>
     (\<forall>i < length (sources CONFIG). \<not> source_failed L w CONFIG i)"
proof -
  have "failures L w CONFIG = [] \<longleftrightarrow> set (failures L w CONFIG) = {}"
    by simp
  also have "\<dots> \<longleftrightarrow> (\<forall>p \<in> set (enumerate 0 (sources CONFIG)). failure L w p = [])"
    by (simp add: failures_set)
  also have "\<dots> \<longleftrightarrow>
      (\<forall>i < length (sources CONFIG). failure L w (i, sources CONFIG ! i) = [])"
    by (rule ball_enumerate)
  also have "\<dots> \<longleftrightarrow> (\<forall>i < length (sources CONFIG). \<not> source_failed L w CONFIG i)"
    by (simp add: failure_empty_iff source_failed_def split: option.splits)
  finally show ?thesis .
qed

subsection \<open>The check of \<open>days\<close> in the route\<close>

text \<open>With a valid \<^verbatim>\<open>CONFIG.days\<close> the check rejects a request only when \<^verbatim>\<open>parseInt\<close> reads
  a number below 0 or above 90.\<close>

lemma parseInt_absent: "parseInt None = None" "parseInt (Some []) = None"
  by code_simp+

lemma rejects_days_iff:
  assumes "1 \<le> days CONFIG" and "days CONFIG \<le> 90"
  shows "rejects_days CONFIG q \<longleftrightarrow>
    (\<exists>k. parseInt (q_days q) = Some k \<and> (k < 0 \<or> 90 < k))"
proof (cases "truthy (q_days q)")
  case True
  with assms show ?thesis
    by (auto simp: rejects_days_def daysNum_def split: option.splits)
next
  case False
  then have "parseInt (q_days q) = None"
    by (cases "q_days q") (simp_all add: truthy_def parseInt_absent)
  with False show ?thesis
    by (simp add: rejects_days_def)
qed

subsection \<open>The run on three sources, evaluated\<close>

lemma ex_source_fields [simp]:
  "itemSelector (ex_source t) = ''li''" "title (ex_source t) = t"
  by (simp_all add: ex_source_def)

lemma ex_world_fields [simp]:
  "net ex_world = ex_net" "settled ex_world = ex_settled" "today ex_world = 19847"
  "now_text ex_world = ''2024-05-04 10:00:10''" "date_now ex_world = 1714816800000"
  by (simp_all add: ex_world_def)

lemma ex_item_date [simp]: "date (ex_item t name d) = d"
  by (simp add: ex_item_def)

lemma ex_trim:
  "trim ''2024-05-03'' = ''2024-05-03''" "trim '' 2024/05/03'' = ''2024/05/03''"
  "trim ''2024.05.02'' = ''2024.05.02''" "trim ''2024-05-01'' = ''2024-05-01''"
  "trim '' a1 '' = ''a1''" "trim ''a2'' = ''a2''" "trim ''b1'' = ''b1''" "trim ''b2'' = ''b2''"
  "trim ''2024-5-3'' = ''2024-5-3''" "trim ''a3'' = ''a3''"
  by code_simp+

lemma ex_process_dated:
  "ex_parse (trim d) = Some k \<Longrightarrow> h \<noteq> ''http://'' \<Longrightarrow>
     process_element ex_lib (ex_source t) (ex_element d name h) =
       Inr \<lparr>source = t, item_title = trim name,
             item_url = ''http://'' @ t @ ''.example/'' @ h, date = k\<rparr>"
  by (simp add: process_element_def ex_lib_def ex_source_def ex_element_def ex_href_def
      sel_text_def sel_attr_def)

lemma ex_process_undated: "process_element ex_lib (ex_source t) ex_undated = Inl NoDateElement"
  by (simp add: process_element_def ex_source_def ex_undated_def)

lemma ex_each_A:
  "each ex_lib (ex_source ''A'') ex_elements_A [] =
     [ex_item ''A'' ''a1'' 19846, ex_item ''A'' ''a2'' 19844]"
proof -
  have "process_element ex_lib (ex_source ''A'') (ex_element ''2024-05-03'' '' a1 '' ''a1.html'')
          = Inr (ex_item ''A'' ''a1'' 19846)"
    by (subst ex_process_dated [where k = 19846])
       (simp_all add: ex_trim ex_parse_def ex_item_def)
  moreover
  have "process_element ex_lib (ex_source ''A'') (ex_element ''2024-05-01'' ''a2'' ''a2.html'')
          = Inr (ex_item ''A'' ''a2'' 19844)"
    by (subst ex_process_dated [where k = 19844])
       (simp_all add: ex_trim ex_parse_def ex_item_def)
  ultimately show ?thesis by (simp add: ex_elements_A_def)
qed

lemma ex_each_B:
  "each ex_lib (ex_source ''B'') ex_elements_B [] =
     [ex_item ''B'' ''b1'' 19846, ex_item ''B'' ''b2'' 19845]"
proof -
  have "process_element ex_lib (ex_source ''B'') (ex_element '' 2024/05/03'' ''b1'' ''b1.html'')
          = Inr (ex_item ''B'' ''b1'' 19846)"
    by (subst ex_process_dated [where k = 19846])
       (simp_all add: ex_trim ex_parse_def ex_item_def)
  moreover
  have "process_element ex_lib (ex_source ''B'') (ex_element ''2024.05.02'' ''b2'' ''b2.html'')
          = Inr (ex_item ''B'' ''b2'' 19845)"
    by (subst ex_process_dated [where k = 19845])
       (simp_all add: ex_trim ex_parse_def ex_item_def)
  ultimately show ?thesis by (simp add: ex_elements_B_def ex_process_undated)
qed

lemma ex_fetch_A:
  "fetchContent ex_lib (ex_net 0) (ex_source ''A'') =
     Inr [ex_item ''A'' ''a1'' 19846, ex_item ''A'' ''a2'' 19844]"
  by (simp add: fetchContent_def ex_net_def ex_document_def ex_each_A)

lemma ex_fetch_B:
  "fetchContent ex_lib (ex_net (Suc 0)) (ex_source ''B'') =
     Inr [ex_item ''B'' ''b1'' 19846, ex_item ''B'' ''b2'' 19845]"
  by (simp add: fetchContent_def ex_net_def ex_document_def ex_each_B)

lemma ex_fetch_C:
  "fetchContent ex_lib (ex_net (Suc (Suc 0))) (ex_source ''C'') =
     Inl (fetch_failed @ ''timeout of 10000ms exceeded)'')"
  by (simp add: fetchContent_def ex_net_def)

lemma ex_mapped:
  "map (mapper ex_lib ex_world) (enumerate 0 (sources ex_config)) =
     [Inr ([], [ex_item ''A'' ''a1'' 19846, ex_item ''A'' ''a2'' 19844]),
      Inr ([], [ex_item ''B'' ''b1'' 19846, ex_item ''B'' ''b2'' 19845]),
      Inr ([ex_error_C], [])]"
  by (simp add: ex_config_def mapper_def ex_fetch_A ex_fetch_B ex_fetch_C
      ex_error_C_def ex_settled_def)

lemma ex_run: "fetchAllData ex_lib ex_world ex_config 3 = Inr ex_result"
  by (simp add: fetchAllData_def ex_mapped by_date_desc_def isAfter_cutoff_def cutoffDate_def
      valueOf_def ex_result_def)

lemma ex_run_default:
  "fetchAllData ex_lib ex_world default_config 3 =
     Inr \<lparr>updateTime = ''2024-05-04 10:00:10'', total = 0, allItems = [], errors = None,
           partialSuccess = Some False\<rparr>"
  by (simp add: fetchAllData_def default_config_def)

lemma ex_run_null: "fetchAllData ex_lib ex_world ex_config_null 3 = Inl null_title"
  by (simp add: fetchAllData_def ex_config_null_def mapper_def ex_fetch_A)


lemma ex_contributions:
  "contributions ex_lib ex_world ex_config =
     [ex_item ''A'' ''a1'' 19846, ex_item ''A'' ''a2'' 19844,
      ex_item ''B'' ''b1'' 19846, ex_item ''B'' ''b2'' 19845]"
  by (simp add: contributions_def contribution_def ex_config_def ex_fetch_A ex_fetch_B
      ex_fetch_C)

lemma ex_fetch_C2:
  "fetchContent ex_lib (ex_net 2) (ex_source ''C'') =
     Inl (fetch_failed @ ''timeout of 10000ms exceeded)'')"
  by (simp add: fetchContent_def ex_net_def)

lemma ex_valid: "None \<notin> set (sources ex_config)"
  by (simp add: ex_config_def)

lemma ex_parseInt_abc: "parseInt (Some ''abc'') = None"
  by code_simp

lemma ex_parseInt_zero: "parseInt (Some ''0'') = Some 0"
  by code_simp

lemma ex_cache_hit:
  "backend_fetchAllData ex_lib ex_world ex_config ex_cache False n = (Inr ex_cached, ex_cache)"
  by (simp add: backend_fetchAllData_def ex_cache_def ex_config_def)

lemma ex_backend_rejected:
  "promise_all (map (backend_mapper ex_lib ex_world) (enumerate 0 (sources ex_config_null))) =
     Inl null_source"
  by (simp add: ex_config_null_def backend_mapper_def)

section \<open>The claims\<close>

text \<open>
  C1. In a run of \<^verbatim>\<open>fetchAllData\<close> of src/server.js on a registry of source objects,
  every source's outcome is taken on its own. The run returns a result; its items are,
  as a multiset, the sum over the sources of what each source extracted within the day
  window, where a failed source counts for nothing and changes no other term; so the
  items a source extracted within the window are all in the result whatever the other
  sources did. A source whose \<^verbatim>\<open>fetchContent\<close> threw has the entry
  \<^verbatim>\<open>{source, error, timestamp}\<close> with its title in \<^verbatim>\<open>errors\<close>.
\<close>

theorem aggregator_isolates_failing_sources:
  assumes "None \<notin> set (sources CONFIG)"
  shows "\<exists>r. fetchAllData L w CONFIG n = Inr r
    \<and> mset (allItems r) =
        (\<Sum>p\<leftarrow>enumerate 0 (sources CONFIG). mset (filter (isAfter_cutoff w n) (contribution L w p)))
    \<and> (\<forall>i sc items. i < length (sources CONFIG) \<and> sources CONFIG ! i = Some sc
          \<and> fetchContent L (net w i) sc = Inr items
          \<longrightarrow> mset (filter (isAfter_cutoff w n) items) \<subseteq># mset (allItems r))
    \<and> (\<forall>i sc msg. i < length (sources CONFIG) \<and> sources CONFIG ! i = Some sc
          \<and> fetchContent L (net w i) sc = Inl msg
          \<longrightarrow> (\<exists>es. errors r = Some es \<and>
                \<lparr>err_source = title sc, error_msg = msg, timestamp = settled w i\<rparr> \<in> set es))"
proof -
  from assms obtain r where run: "fetchAllData L w CONFIG n = Inr r"
    using fetchAllData_returns_iff [of L w CONFIG n] by blast
  note items = fetchAllData_value(1) [OF run] and errs = fetchAllData_value(3) [OF run]
  have "mset (allItems r) = mset (filter (isAfter_cutoff w n) (contributions L w CONFIG))"
    by (simp add: items mset_js_sort)
  also have "\<dots> =
      (\<Sum>p\<leftarrow>enumerate 0 (sources CONFIG). mset (filter (isAfter_cutoff w n) (contribution L w p)))"
    unfolding contributions_def by (rule mset_filter_concat)
  finally have total: "mset (allItems r) =
      (\<Sum>p\<leftarrow>enumerate 0 (sources CONFIG). mset (filter (isAfter_cutoff w n) (contribution L w p)))" .
  have kept: "mset (filter (isAfter_cutoff w n) items) \<subseteq># mset (allItems r)"
    if "i < length (sources CONFIG)" "sources CONFIG ! i = Some sc"
      "fetchContent L (net w i) sc = Inr items" for i sc items
  proof -
    from that have "(i, Some sc) \<in> set (enumerate 0 (sources CONFIG))"
      by (simp add: in_set_enumerate_eq)
    from contribution_within [OF this, of "isAfter_cutoff w n" L w] that(3)
    show ?thesis by (simp add: total contribution_def)
  qed
  have reported: "\<exists>es. errors r = Some es \<and>
      \<lparr>err_source = title sc, error_msg = msg, timestamp = settled w i\<rparr> \<in> set es"
    if "i < length (sources CONFIG)" "sources CONFIG ! i = Some sc"
      "fetchContent L (net w i) sc = Inl msg" for i sc msg
  proof -
    from that have "(i, Some sc) \<in> set (enumerate 0 (sources CONFIG))"
      by (simp add: in_set_enumerate_eq)
    moreover from that(3)
    have "\<lparr>err_source = title sc, error_msg = msg, timestamp = settled w i\<rparr>
            \<in> set (failure L w (i, Some sc))"
      by (simp add: failure_def)
    ultimately have "\<lparr>err_source = title sc, error_msg = msg, timestamp = settled w i\<rparr>
            \<in> set (failures L w CONFIG)"
      unfolding failures_set by blast
    then show ?thesis by (auto simp: errs)
  qed
  from run total kept reported show ?thesis by blast
qed

theorem aggregator_isolates_failing_sources_witness:
  "None \<notin> set (sources ex_config)
   \<and> fetchAllData ex_lib ex_world ex_config 3 = Inr ex_result
   \<and> mset [ex_item ''B'' ''b1'' 19846, ex_item ''B'' ''b2'' 19845] \<subseteq># mset (allItems ex_result)
   \<and> errors ex_result = Some [ex_error_C]
   \<and> ex_error_C \<in> set [ex_error_C]"
proof -
  from aggregator_isolates_failing_sources [OF ex_valid, of ex_lib ex_world 3]
  obtain r where run: "fetchAllData ex_lib ex_world ex_config 3 = Inr r"
    and kept: "\<forall>i sc items. i < length (sources ex_config) \<and> sources ex_config ! i = Some sc
          \<and> fetchContent ex_lib (net ex_world i) sc = Inr items
          \<longrightarrow> mset (filter (isAfter_cutoff ex_world 3) items) \<subseteq># mset (allItems r)"
    by blast
  from run have r: "r = ex_result" by (simp add: ex_run)
  have "Suc 0 < length (sources ex_config) \<and> sources ex_config ! Suc 0 = Some (ex_source ''B'')
      \<and> fetchContent ex_lib (net ex_world (Suc 0)) (ex_source ''B'') =
          Inr [ex_item ''B'' ''b1'' 19846, ex_item ''B'' ''b2'' 19845]"
    by (simp add: ex_config_def ex_fetch_B)
  with kept r
  have "mset (filter (isAfter_cutoff ex_world 3)
      [ex_item ''B'' ''b1'' 19846, ex_item ''B'' ''b2'' 19845]) \<subseteq># mset (allItems ex_result)"
    by blast
  then have "mset [ex_item ''B'' ''b1'' 19846, ex_item ''B'' ''b2'' 19845]
      \<subseteq># mset (allItems ex_result)"
    by (simp add: isAfter_cutoff_iff)
  then show ?thesis
    by (simp add: ex_valid ex_run) (simp add: ex_result_def)
qed

text \<open>
  C2, as the code has it. In a result of \<^verbatim>\<open>fetchAllData\<close> of src/server.js the field
  \<^verbatim>\<open>errors\<close> is absent exactly when no source failed, and is never an empty list. The
  field \<^verbatim>\<open>partialSuccess\<close> is always there, as a boolean: true when \<^verbatim>\<open>errors\<close> is
  present and \<^verbatim>\<open>total > 0\<close>, false otherwise, also when there are no errors.
\<close>

theorem errors_and_partialSuccess_fields:
  assumes "fetchAllData L w CONFIG n = Inr r"
  shows "(errors r = None \<longleftrightarrow> (\<forall>i < length (sources CONFIG). \<not> source_failed L w CONFIG i))
    \<and> errors r \<noteq> Some []
    \<and> partialSuccess r = Some (errors r \<noteq> None \<and> total r > 0)"
proof -
  note errs = fetchAllData_value(3) [OF assms] and part = fetchAllData_value(4) [OF assms]
  show ?thesis
    using failures_empty_iff [of L w CONFIG] by (simp add: errs part)
qed

theorem errors_and_partialSuccess_fields_witness:
  "fetchAllData ex_lib ex_world ex_config 3 = Inr ex_result
   \<and> source_failed ex_lib ex_world ex_config 2
   \<and> errors ex_result \<noteq> None
   \<and> partialSuccess ex_result = Some True"
proof -
  from errors_and_partialSuccess_fields [OF ex_run]
  have absent: "errors ex_result = None \<longleftrightarrow>
      (\<forall>i < length (sources ex_config). \<not> source_failed ex_lib ex_world ex_config i)"
    and part: "partialSuccess ex_result = Some (errors ex_result \<noteq> None \<and> total ex_result > 0)"
    by blast+
  have failed: "source_failed ex_lib ex_world ex_config 2"
    by (simp add: source_failed_def ex_config_def ex_fetch_C2)
  moreover have "2 < length (sources ex_config)"
    by (simp add: ex_config_def)
  ultimately have present: "errors ex_result \<noteq> None"
    using absent by blast
  moreover have "total ex_result > 0"
    by (simp add: ex_result_def)
  ultimately show ?thesis
    using part failed by (simp add: ex_run)
qed

text \<open>
  C2 as the specification states it fails: with no source at all nothing failed and
  \<^verbatim>\<open>errors\<close> is absent, yet \<^verbatim>\<open>partialSuccess\<close> is \<^verbatim>\<open>false\<close>, not left out.
\<close>

theorem partialSuccess_present_without_errors:
  "fetchAllData ex_lib ex_world default_config 3 = Inr ex_result_default
   \<and> errors ex_result_default = None
   \<and> partialSuccess ex_result_default = Some False"
  by (simp add: ex_run_default) (simp add: ex_result_default_def)

text \<open>
  C3. Every item in a result of \<^verbatim>\<open>fetchAllData(n)\<close> has a date strictly after the day
  \<open>n\<close> days before today: the result is the sorted list with exactly the items of an
  earlier or equal date removed, and \<^verbatim>\<open>total\<close> is its length. This holds for every
  \<open>n\<close>, so for the valid ones from 1 to 90.
\<close>

theorem result_within_day_window:
  assumes "fetchAllData L w CONFIG n = Inr r"
  shows "(\<forall>it \<in> set (allItems r). today w - n < date it)
    \<and> allItems r = filter (\<lambda>it. today w - n < date it) (js_sort by_date_desc (contributions L w CONFIG))
    \<and> total r = length (allItems r)"
proof -
  note items = fetchAllData_value(1) [OF assms] and total = fetchAllData_value(2) [OF assms]
  show ?thesis
    using total by (simp add: items isAfter_cutoff_fun)
qed

theorem result_within_day_window_witness:
  "fetchAllData ex_lib ex_world ex_config 3 = Inr ex_result
   \<and> today ex_world - 3 < date (ex_item ''B'' ''b2'' 19845)
   \<and> ex_item ''A'' ''a2'' 19844 \<notin> set (allItems ex_result)
   \<and> total ex_result = 3"
proof -
  from result_within_day_window [OF ex_run]
  have after: "\<forall>it \<in> set (allItems ex_result). today ex_world - 3 < date it"
    and count: "total ex_result = length (allItems ex_result)"
    by blast+
  have "ex_item ''B'' ''b2'' 19845 \<in> set (allItems ex_result)"
    by (simp add: ex_result_def)
  with after have "today ex_world - 3 < date (ex_item ''B'' ''b2'' 19845)"
    by blast
  moreover from after have "ex_item ''A'' ''a2'' 19844 \<notin> set (allItems ex_result)"
    by fastforce
  moreover from count have "total ex_result = 3"
    by (simp add: ex_result_def)
  ultimately show ?thesis
    by (simp add: ex_run)
qed

text \<open>
  C4. The items of a result are sorted by date, newest first, and the items of one date
  stand in the order of the concatenation of the sources' lists: the sort has no second
  key.
\<close>

theorem result_sorted_newest_first_stable:
  assumes "fetchAllData L w CONFIG n = Inr r"
  shows "sorted_wrt (\<lambda>a b. date b \<le> date a) (allItems r)
    \<and> (\<forall>d. filter (\<lambda>it. date it = d) (allItems r) =
          filter (\<lambda>it. date it = d) (filter (isAfter_cutoff w n) (contributions L w CONFIG)))"
proof -
  note items = fetchAllData_value(1) [OF assms]
  have ordered: "newest_first (allItems r)"
    unfolding items by (rule sorted_wrt_filter) (rule newest_first_js_sort)
  have stable: "filter (\<lambda>it. date it = d) (allItems r) =
      filter (\<lambda>it. date it = d) (filter (isAfter_cutoff w n) (contributions L w CONFIG))" for d
  proof -
    have "filter (\<lambda>it. date it = d) (allItems r) =
        filter (isAfter_cutoff w n)
          (filter (\<lambda>it. date it = d) (js_sort by_date_desc (contributions L w CONFIG)))"
      unfolding items by (simp add: conj_commute)
    also have "\<dots> = filter (isAfter_cutoff w n)
        (filter (\<lambda>it. date it = d) (contributions L w CONFIG))"
      by (simp only: same_day_js_sort)
    finally show ?thesis by (simp add: conj_commute)
  qed
  from ordered stable show ?thesis by blast
qed

theorem result_sorted_newest_first_stable_witness:
  "fetchAllData ex_lib ex_world ex_config 3 = Inr ex_result
   \<and> sorted_wrt (\<lambda>a b. date b \<le> date a) (allItems ex_result)
   \<and> filter (\<lambda>it. date it = 19846) (allItems ex_result) =
       [ex_item ''A'' ''a1'' 19846, ex_item ''B'' ''b1'' 19846]"
proof -
  from result_sorted_newest_first_stable [OF ex_run]
  have ordered: "sorted_wrt (\<lambda>a b. date b \<le> date a) (allItems ex_result)"
    and stable: "filter (\<lambda>it. date it = 19846) (allItems ex_result) =
      filter (\<lambda>it. date it = 19846)
        (filter (isAfter_cutoff ex_world 3) (contributions ex_lib ex_world ex_config))"
    by blast+
  from stable have "filter (\<lambda>it. date it = 19846) (allItems ex_result) =
      [ex_item ''A'' ''a1'' 19846, ex_item ''B'' ''b1'' 19846]"
    by (simp add: ex_contributions isAfter_cutoff_iff)
  with ordered show ?thesis
    by (simp add: ex_run)
qed

text \<open>
  C5 fails on the code. An element of a fetched document whose date text is
  \<^verbatim>\<open>2024-5-3\<close> matches none of the strict formats, so the extractor has to skip it.
  \<^verbatim>\<open>fetchContent\<close> of src/server.js keeps it, as an item of 2024-05-03 (day 19846):
  the program never extends dayjs with the plugin that reads the formats, and the
  expression dayjs matches instead takes a month and a day of one digit. This holds
  for every date parser of the engine, which the text does not reach.
\<close>

theorem one_digit_date_is_kept:
  "\<not> strict_format (trim ''2024-5-3'')
   \<and> dayjs_parse (core_lib new_Date) (trim ''2024-5-3'') = Some 19846
   \<and> process_element (core_lib new_Date) (ex_source ''A'') ex_one_digit =
       Inr (ex_item ''A'' ''a3'' 19846)
   \<and> fetchContent (core_lib new_Date) (HttpResponse 200 ''OK'' (ex_document [ex_one_digit]))
         (ex_source ''A'') = Inr [ex_item ''A'' ''a3'' 19846]"
proof -
  have shape: "\<not> strict_format ''2024-5-3''"
    by code_simp
  have groups: "REGEX_PARSE ''2024-5-3'' = Some (''2024'', ''5'', ''3'', [], [], [], [])"
    by code_simp
  have day: "local_day (digits_value 10 ''2024'') (digits_value 10 ''5'' - 1)
      (digits_value 10 ''3'') (digits_value 10 []) (digits_value 10 []) (digits_value 10 [])
      (digits_value 10 []) = 19846"
    by code_simp
  have parsed: "parseDate new_Date ''2024-5-3'' = Some 19846"
    by (simp add: parseDate_def groups day)
  have built: "process_element (core_lib new_Date) (ex_source ''A'') ex_one_digit =
      Inr (ex_item ''A'' ''a3'' 19846)"
    by (simp add: process_element_def core_lib_def ex_source_def ex_one_digit_def
        ex_element_def ex_href_def sel_text_def sel_attr_def ex_trim parsed ex_item_def)
  have "fetchContent (core_lib new_Date) (HttpResponse 200 ''OK'' (ex_document [ex_one_digit]))
      (ex_source ''A'') = Inr [ex_item ''A'' ''a3'' 19846]"
    by (simp add: fetchContent_def ex_document_def built)
  with shape parsed built show ?thesis
    by (simp add: ex_trim core_lib_def)
qed

text \<open>
  C6. A read that is not forced, with an entry in the cache that is younger than the
  time to live, returns the cached result and leaves the cache as it is, whatever the
  \<open>days\<close> argument: two reads with different \<open>days\<close> return the same.
\<close>

theorem cache_read_within_ttl:
  assumes "data NEWS_CACHE = Some cached"
    and "lastUpdate NEWS_CACHE = Some t"
    and "date_now w - t < intervalMinutes CONFIG * 60 * 1000"
  shows "backend_fetchAllData L w CONFIG NEWS_CACHE False n = (Inr cached, NEWS_CACHE)
    \<and> backend_fetchAllData L w CONFIG NEWS_CACHE False n' =
        backend_fetchAllData L w CONFIG NEWS_CACHE False n"
  using assms by (simp add: backend_fetchAllData_def)

theorem cache_read_within_ttl_witness:
  "data ex_cache = Some ex_cached
   \<and> lastUpdate ex_cache = Some 1714816000000
   \<and> date_now ex_world - 1714816000000 < intervalMinutes ex_config * 60 * 1000
   \<and> backend_fetchAllData ex_lib ex_world ex_config ex_cache False 30 = (Inr ex_cached, ex_cache)"
proof -
  have entry: "data ex_cache = Some ex_cached" and stamp: "lastUpdate ex_cache = Some 1714816000000"
    by (simp_all add: ex_cache_def)
  have young: "date_now ex_world - 1714816000000 < intervalMinutes ex_config * 60 * 1000"
    by (simp add: ex_config_def)
  from cache_read_within_ttl [OF entry stamp young, of ex_lib 30]
  have "backend_fetchAllData ex_lib ex_world ex_config ex_cache False 30 = (Inr ex_cached, ex_cache)"
    by blast
  with entry stamp young show ?thesis by blast
qed

text \<open>
  C7. When the aggregation of a refresh is rejected with an error and the cache holds
  an entry, \<^verbatim>\<open>fetchAllData\<close> of src/backend/server.js returns that entry and leaves the
  cache as it is; without an entry it throws the error. It throws in no other case.
\<close>

theorem cache_fallback_on_hard_failure:
  "(promise_all (map (backend_mapper L w) (enumerate 0 (sources CONFIG))) = Inl e \<longrightarrow>
      backend_fetchAllData L w CONFIG NEWS_CACHE forceRefresh n =
        (case data NEWS_CACHE of
           Some cached \<Rightarrow> (Inr cached, NEWS_CACHE)
         | None \<Rightarrow> (Inl e, NEWS_CACHE)))
   \<and> (fst (backend_fetchAllData L w CONFIG NEWS_CACHE forceRefresh n) = Inl e \<longrightarrow>
        data NEWS_CACHE = None
        \<and> promise_all (map (backend_mapper L w) (enumerate 0 (sources CONFIG))) = Inl e)"
  by (auto simp: backend_fetchAllData_def Let_def split: sum.splits option.splits)

theorem cache_fallback_on_hard_failure_witness:
  "promise_all (map (backend_mapper ex_lib ex_world) (enumerate 0 (sources ex_config_null))) =
     Inl null_source
   \<and> backend_fetchAllData ex_lib ex_world ex_config_null ex_cache True 3 = (Inr ex_cached, ex_cache)
   \<and> backend_fetchAllData ex_lib ex_world ex_config_null initial_cache True 3 =
       (Inl null_source, initial_cache)
   \<and> data initial_cache = None"
proof -
  note rejected = ex_backend_rejected
  from cache_fallback_on_hard_failure [of ex_lib ex_world ex_config_null null_source ex_cache True 3]
    rejected
  have kept: "backend_fetchAllData ex_lib ex_world ex_config_null ex_cache True 3 =
      (Inr ex_cached, ex_cache)"
    by (simp add: ex_cache_def)
  from cache_fallback_on_hard_failure
    [of ex_lib ex_world ex_config_null null_source initial_cache True 3] rejected
  have thrown: "backend_fetchAllData ex_lib ex_world ex_config_null initial_cache True 3 =
      (Inl null_source, initial_cache)"
    by (simp add: initial_cache_def)
  from cache_fallback_on_hard_failure
    [of ex_lib ex_world ex_config_null null_source initial_cache True 3] thrown
  have "data initial_cache = None"
    by simp
  with rejected kept thrown show ?thesis by blast
qed

text \<open>
  C8, as the code has it. \<^verbatim>\<open>fetchContent\<close> of src/server.js returns items exactly for a
  response with status 200 whose document answers the item selector, and the items
  are those the \<^verbatim>\<open>each\<close> loop builds. In every other case it throws: a network
  failure, a status of 400 or above, and also an accepted status below 400 that is
  not 200.
\<close>

theorem fetchContent_parses_200_only:
  "fetchContent L outcome sc = Inr items \<longleftrightarrow>
     (\<exists>statusText body els. outcome = HttpResponse 200 statusText body
        \<and> body (itemSelector sc) = Inr els \<and> items = each L sc els [])"
  by (cases outcome) (auto simp: fetchContent_def split: sum.splits)

theorem fetchContent_parses_200_only_witness:
  "fetchContent ex_lib (HttpResponse 200 ''OK'' (ex_document ex_elements_A)) (ex_source ''A'') =
     Inr [ex_item ''A'' ''a1'' 19846, ex_item ''A'' ''a2'' 19844]
   \<and> isl (fetchContent ex_lib ex_response_203 (ex_source ''A''))"
proof -
  have "\<exists>statusText body els.
      HttpResponse 200 ''OK'' (ex_document ex_elements_A) = HttpResponse 200 statusText body
      \<and> body (itemSelector (ex_source ''A'')) = Inr els
      \<and> [ex_item ''A'' ''a1'' 19846, ex_item ''A'' ''a2'' 19844] = each ex_lib (ex_source ''A'') els []"
    by (simp add: ex_document_def ex_each_A)
  then have parsed: "fetchContent ex_lib (HttpResponse 200 ''OK'' (ex_document ex_elements_A))
      (ex_source ''A'') = Inr [ex_item ''A'' ''a1'' 19846, ex_item ''A'' ''a2'' 19844]"
    by (simp only: fetchContent_parses_200_only)
  have "\<not> (\<exists>items. fetchContent ex_lib ex_response_203 (ex_source ''A'') = Inr items)"
    by (simp add: fetchContent_parses_200_only ex_response_203_def)
  then have "isl (fetchContent ex_lib ex_response_203 (ex_source ''A''))"
    by (cases "fetchContent ex_lib ex_response_203 (ex_source ''A'')") simp_all
  with parsed show ?thesis by blast
qed

text \<open>
  C8 as the specification states it fails: a response with the accepted status 203
  and a document with two well-formed items is not parsed; \<^verbatim>\<open>fetchContent\<close> throws.
\<close>

theorem accepted_status_203_raises:
  "fetchContent ex_lib ex_response_203 (ex_source ''A'') =
     Inl (fetch_failed @ ''HTTP status: 203)'')"
  by (simp add: fetchContent_def ex_response_203_def string_of_nat.simps digit_char_def)

text \<open>
  C9 fails on the code. The requests \<^verbatim>\<open>GET /api/news?days=abc\<close> and
  \<^verbatim>\<open>GET /api/news?days=0\<close> carry a \<open>days\<close> that is not an integer from 1 to 90, and
  the handler answers both with status 200 and the cached result: \<^verbatim>\<open>parseInt(days)\<close> is
  \<^verbatim>\<open>NaN\<close> or \<^verbatim>\<open>0\<close>, \<^verbatim>\<open>|| CONFIG.days\<close> replaces it by 3, and the check that follows sees
  only the 3.
\<close>

theorem api_news_serves_invalid_days:
  "daysNum ex_config ex_query_abc = Some 3
   \<and> rejects_days ex_config ex_query_abc = False
   \<and> fst (api_news ex_lib ex_world ex_config ex_cache ex_query_abc) = Response 200 (Data ex_cached)
   \<and> daysNum ex_config ex_query_zero = Some 3
   \<and> rejects_days ex_config ex_query_zero = False
   \<and> fst (api_news ex_lib ex_world ex_config ex_cache ex_query_zero) = Response 200 (Data ex_cached)"
proof -
  have abc: "daysNum ex_config ex_query_abc = Some 3"
    by (simp add: daysNum_def ex_query_abc_def ex_parseInt_abc ex_config_def)
  have zero: "daysNum ex_config ex_query_zero = Some 3"
    by (simp add: daysNum_def ex_query_zero_def ex_parseInt_zero ex_config_def)
  have count: "ex_cached\<lparr>total := length (allItems ex_cached)\<rparr> = ex_cached"
    by (simp add: ex_cached_def)
  have no_abc: "rejects_days ex_config ex_query_abc = False"
    by (simp add: rejects_days_def abc)
  have no_zero: "rejects_days ex_config ex_query_zero = False"
    by (simp add: rejects_days_def zero)
  have all_abc: "q_category ex_query_abc = None" and all_zero: "q_category ex_query_zero = None"
    by (simp_all add: ex_query_abc_def ex_query_zero_def)
  have "fst (api_news ex_lib ex_world ex_config ex_cache ex_query_abc) = Response 200 (Data ex_cached)"
    by (simp add: api_news_def no_abc abc ex_cache_hit truthy_def count all_abc)
  moreover
  have "fst (api_news ex_lib ex_world ex_config ex_cache ex_query_zero) = Response 200 (Data ex_cached)"
    by (simp add: api_news_def no_zero zero ex_cache_hit truthy_def count all_zero)
  ultimately show ?thesis
    using abc zero no_abc no_zero by blast
qed

text \<open>
  C10. On a list of sources without a \<^verbatim>\<open>null\<close> entry \<^verbatim>\<open>fetchAllData\<close> of src/server.js
  always returns a result: for every source the mapped function is fulfilled, with an
  error entry and an empty item list when \<^verbatim>\<open>fetchContent\<close> threw, so \<^verbatim>\<open>Promise.all\<close>
  is never rejected and the outer \<^verbatim>\<open>catch\<close> is not reached.
\<close>

theorem aggregator_total_on_valid_sources:
  assumes valid: "None \<notin> set (sources CONFIG)"
  shows "(\<exists>r. fetchAllData L w CONFIG n = Inr r)
    \<and> (\<forall>p \<in> set (enumerate 0 (sources CONFIG)).
          mapper L w p = Inr (failure L w p, contribution L w p)
          \<and> (failure L w p = [] \<or> contribution L w p = []))"
proof -
  from valid have returns: "\<exists>r. fetchAllData L w CONFIG n = Inr r"
    by (simp add: fetchAllData_returns_iff)
  have caught: "mapper L w p = Inr (failure L w p, contribution L w p)
      \<and> (failure L w p = [] \<or> contribution L w p = [])"
    if "p \<in> set (enumerate 0 (sources CONFIG))" for p
  proof -
    from that valid have "snd p \<noteq> None"
      using null_entry_enumerate [of 0 "sources CONFIG"] by auto
    then show ?thesis
      by (cases p) (auto simp: mapper_def failure_def contribution_def split: sum.splits)
  qed
  from returns caught show ?thesis by blast
qed

theorem aggregator_total_on_valid_sources_witness:
  "None \<notin> set (sources ex_config)
   \<and> (\<exists>r. fetchAllData ex_lib ex_world ex_config 3 = Inr r)
   \<and> mapper ex_lib ex_world (2, Some (ex_source ''C'')) = Inr ([ex_error_C], [])"
proof -
  note valid = ex_valid
  from aggregator_total_on_valid_sources [OF valid, of ex_lib ex_world 3]
  have returns: "\<exists>r. fetchAllData ex_lib ex_world ex_config 3 = Inr r"
    and caught: "\<forall>p \<in> set (enumerate 0 (sources ex_config)).
      mapper ex_lib ex_world p = Inr (failure ex_lib ex_world p, contribution ex_lib ex_world p)"
    by blast+
  have "(2, Some (ex_source ''C'')) \<in> set (enumerate 0 (sources ex_config))"
    by (simp add: ex_config_def)
  with caught have "mapper ex_lib ex_world (2, Some (ex_source ''C'')) =
      Inr (failure ex_lib ex_world (2, Some (ex_source ''C'')),
           contribution ex_lib ex_world (2, Some (ex_source ''C'')))"
    by blast
  then have "mapper ex_lib ex_world (2, Some (ex_source ''C'')) = Inr ([ex_error_C], [])"
    by (simp add: failure_def contribution_def ex_fetch_C2 ex_error_C_def ex_settled_def)
  with valid returns show ?thesis by blast
qed


end
